theory Spec2Isabelle
  imports Main
begin

section \<open>Values, exceptions and results\<close>

text \<open>
  The client of \<^verbatim>\<open>cryptos/electrumx_client/rpc.py\<close> moves decoded JSON around: server
  descriptors, ports, request parameters, response payloads. Numbers are kept as
  integers; the client never computes with them, it only tests them for truth.
\<close>

datatype json =
    JNull
  | JBool bool
  | JInt int
  | JStr string
  | JList "json list"
  | JObj "(string \<times> json) list"

text \<open>Python's truth test, as \<^verbatim>\<open>if result['error']:\<close> applies it.\<close>

fun truthy :: "json \<Rightarrow> bool" where
  "truthy JNull = False"
| "truthy (JBool b) = b"
| "truthy (JInt i) = (i \<noteq> 0)"
| "truthy (JStr s) = (s \<noteq> [])"
| "truthy (JList xs) = (xs \<noteq> [])"
| "truthy (JObj kvs) = (kvs \<noteq> [])"

text \<open>
  The exceptions that the modelled paths can raise. \<open>PyException\<close> is the plain
  \<^verbatim>\<open>Exception(...)\<close> of \<^verbatim>\<open>change_server\<close> and of the notification handlers;
  \<open>RPCResponseExecption\<close> is the one exception class the module declares.
  \<open>AsyncioTimeoutError\<close> is \<^verbatim>\<open>asyncio.TimeoutError\<close>, which is not an
  \<^verbatim>\<open>OSError\<close> on the interpreters this code was written for.
\<close>

datatype exc_args =
    AttemptedServers nat
  | ErrorPayload json

datatype exn =
    AttributeError
  | IndexError
  | KeyError
  | TypeError
  | OSError
  | SSLError
  | AsyncioTimeoutError
  | PyException exc_args
  | RPCResponseExecption json

text \<open>\<^verbatim>\<open>except (OSError, ssl.SSLError)\<close>: \<^verbatim>\<open>ssl.SSLError\<close> derives from \<^verbatim>\<open>OSError\<close>.\<close>

fun is_OSError :: "exn \<Rightarrow> bool" where
  "is_OSError OSError = True"
| "is_OSError SSLError = True"
| "is_OSError _ = False"

text \<open>
  A call returns a value, raises, or does not come back within the number of nested
  calls it was given (\<open>Diverge\<close>).
\<close>

datatype 'a result = Ret 'a | Raise exn | Diverge

text \<open>Subscripting with an integer index, \<^verbatim>\<open>data[0]\<close>.\<close>

fun py_getitem :: "json \<Rightarrow> nat \<Rightarrow> exn + json" where
  "py_getitem (JList xs) i = (if i < length xs then Inr (xs ! i) else Inl IndexError)"
| "py_getitem (JStr s) i = (if i < length s then Inr (JStr [s ! i]) else Inl IndexError)"
| "py_getitem (JObj kvs) i = Inl KeyError"
| "py_getitem _ i = Inl TypeError"

section \<open>The session: RPCClient\<close>

text \<open>The dictionary that \<^verbatim>\<open>RPCClient.handle_response\<close> stores per request id.\<close>

record rpc_result =
  data :: json
  error :: json
  rmethod :: string
  params :: "json list"

type_synonym request = "string \<times> json list"

text \<open>
  The callbacks handed to \<^verbatim>\<open>send_rpc_request\<close>, as closures: the default
  \<^verbatim>\<open>handle_response\<close>, and the two notification handlers with what they capture
  (the scripthash-to-address dictionary and the caller's callback, named by a number).
\<close>

datatype callback =
    HandleResponse
  | ScripthashNotify "(string \<times> string) list" nat
  | BlockHeadersNotify nat

text \<open>\<^verbatim>\<open>partial(callback, method, params)\<close>.\<close>

datatype handler = Handler callback string "json list"

text \<open>What a handler does when it is called: store a result, or call the user's callback.\<close>

datatype effect =
    Store rpc_result
  | Called nat "json list"

record session =
  next_id :: nat
  pending :: "nat \<rightharpoonup> handler"
  results :: "nat \<rightharpoonup> rpc_result"

text \<open>\<^verbatim>\<open>RPCClient()\<close> as \<^verbatim>\<open>TCPConnection.create_connection\<close> makes it.\<close>

definition new_session :: session where
  "new_session = \<lparr>next_id = 0, pending = Map.empty, results = Map.empty\<rparr>"

text \<open>
  Modelled from the spec: \<^verbatim>\<open>JSONSession.send_request\<close> (\<^verbatim>\<open>jsonrpc.py\<close> is not among
  the sources). Section 4.2: send records a pending request under a freshly allocated
  id and returns the id at once.
\<close>

definition send_request :: "session \<Rightarrow> handler \<Rightarrow> nat \<times> session" where
  "send_request s h =
     (next_id s, s\<lparr>next_id := Suc (next_id s), pending := (pending s)(next_id s \<mapsto> h)\<rparr>)"

definition send_rpc_request :: "session \<Rightarrow> string \<Rightarrow> json list \<Rightarrow> callback \<Rightarrow> nat \<times> session" where
  "send_rpc_request s m ps cb = send_request s (Handler cb m ps)"

text \<open>
  Calling a handler as \<^verbatim>\<open>handler(id_, data, error)\<close>: \<^verbatim>\<open>handle_response\<close>, and the
  closures \<^verbatim>\<open>handle_scripthash_notify\<close> and \<^verbatim>\<open>handle_block_headers_notify\<close>.
\<close>

fun lookup_address :: "(string \<times> string) list \<Rightarrow> json \<Rightarrow> exn + string" where
  "lookup_address d (JStr h) = (case map_of d h of None \<Rightarrow> Inl KeyError | Some a \<Rightarrow> Inr a)"
| "lookup_address d (JList xs) = Inl TypeError"
| "lookup_address d (JObj kvs) = Inl TypeError"
| "lookup_address d _ = Inl KeyError"

fun invoke_handler :: "handler \<Rightarrow> nat \<Rightarrow> json \<Rightarrow> json \<Rightarrow> exn + effect" where
  "invoke_handler (Handler HandleResponse m ps) i d e =
     Inr (Store \<lparr>data = d, error = e, rmethod = m, params = ps\<rparr>)"
| "invoke_handler (Handler (ScripthashNotify addrs_scripthashes cb) m ps) i d e =
     (if truthy e then Inl (PyException (ErrorPayload e))
      else case py_getitem d 0 of
        Inl x \<Rightarrow> Inl x
      | Inr scripthash \<Rightarrow>
          (case lookup_address addrs_scripthashes scripthash of
             Inl x \<Rightarrow> Inl x
           | Inr address \<Rightarrow>
               (case py_getitem d 1 of
                  Inl x \<Rightarrow> Inl x
                | Inr status \<Rightarrow> Inr (Called cb [JStr address, status]))))"
| "invoke_handler (Handler (BlockHeadersNotify cb) m ps) i d e =
     (if truthy e then Inl (PyException (ErrorPayload e)) else Inr (Called cb [d]))"

section \<open>The client\<close>

datatype 'a attr = Unset | Attr 'a

record cache_entry =
  fee :: json
  expiry :: int

text \<open>
  The attributes of \<^verbatim>\<open>ElectrumXClient\<close>. \<open>transport\<close> is an attribute that
  \<^verbatim>\<open>__init__\<close> does not create. The last six fields are not attributes: they record
  what the client has done to its surroundings (random draws taken, connections
  attempted, sends attempted, requests written, batches waited for, callbacks called).
\<close>

record client =
  use_ssl :: bool
  fees :: "int \<rightharpoonup> cache_entry"
  client_name :: string
  protocol_version :: json
  timeout :: int
  failed_hosts :: "string option list"
  max_servers :: int
  servers :: "(string \<times> (string \<times> json) list) list"
  host :: "string option"
  port :: json
  rpc_client :: "session option"
  transport :: "nat option attr"
  server_electrumx_version :: "json attr"
  server_protocol_version :: "json attr"
  rand_pos :: nat
  conn_attempts :: "(string option \<times> json) list"
  send_count :: nat
  sent :: "(string option \<times> nat \<times> request) list"
  gathers :: nat
  callback_log :: "(nat \<times> json list) list"

text \<open>
  The surroundings, as the client meets them: the \<open>i\<close>-th draw of \<^verbatim>\<open>random.choice\<close>,
  the outcome of the \<open>i\<close>-th \<^verbatim>\<open>create_connection\<close>, whether the \<open>i\<close>-th send raises,
  and the frames that arrive, in their order of arrival, while the \<open>i\<close>-th batch is
  waited for.
\<close>

datatype conn_outcome =
    ConnRaises exn
  | ConnReturns "nat option" bool

record frame =
  frame_id :: nat
  frame_data :: json
  frame_error :: json

record env =
  random_draw :: "nat \<Rightarrow> nat"
  create_connection :: "nat \<Rightarrow> string option \<Rightarrow> json \<Rightarrow> bool \<Rightarrow> conn_outcome"
  send_raises :: "nat \<Rightarrow> exn option"
  inbound :: "nat \<Rightarrow> frame list"

subsection \<open>The server registry\<close>

definition server_is_usable :: "bool \<Rightarrow> (string \<times> json) list \<Rightarrow> json" where
  "server_is_usable ssl server =
     (if ssl \<and> map_of server ''s'' = None then JBool False
      else if \<not> ssl \<and> map_of server ''t'' = None then JBool False
      else (case map_of server ''usable'' of None \<Rightarrow> JBool True | Some v \<Rightarrow> v))"

text \<open>The dictionary comprehension of \<^verbatim>\<open>__init__\<close>.\<close>

definition usable_servers ::
  "bool \<Rightarrow> (string \<times> (string \<times> json) list) list \<Rightarrow> (string \<times> (string \<times> json) list) list" where
  "usable_servers ssl catalog = filter (\<lambda>hs. truthy (server_is_usable ssl (snd hs))) catalog"

text \<open>\<^verbatim>\<open>del self.servers[host]\<close>.\<close>

definition del_server ::
  "string \<Rightarrow> (string \<times> (string \<times> json) list) list \<Rightarrow> (string \<times> (string \<times> json) list) list" where
  "del_server h svs = filter (\<lambda>hs. fst hs \<noteq> h) svs"

text \<open>The key of the port that the transport mode needs.\<close>

definition port_key :: "bool \<Rightarrow> string" where
  "port_key ssl = (if ssl then ''s'' else ''t'')"

text \<open>
  \<^verbatim>\<open>random.choice(list(self.servers.keys()))\<close> on a registry that is not empty: the
  key at the drawn position.
\<close>

definition random_choice :: "env \<Rightarrow> client \<Rightarrow> string" where
  "random_choice E c =
     map fst (servers c) ! (random_draw E (rand_pos c) mod length (map fst (servers c)))"

function choose_random_server :: "env \<Rightarrow> client \<Rightarrow> (string \<times> json) result \<times> client" where
  "choose_random_server E c =
     (if servers c = [] then (Raise IndexError, c)
      else case map_of (servers c) (random_choice E c) of
             None \<Rightarrow> (Raise KeyError, c\<lparr>rand_pos := Suc (rand_pos c)\<rparr>)
           | Some server \<Rightarrow>
               (case map_of server (port_key (use_ssl c)) of
                  Some p \<Rightarrow> (Ret (random_choice E c, p), c\<lparr>rand_pos := Suc (rand_pos c)\<rparr>)
                | None \<Rightarrow>
                    choose_random_server E
                      (c\<lparr>rand_pos := Suc (rand_pos c),
                         servers := del_server (random_choice E c) (servers c)\<rparr>)))"
  by pat_completeness auto

lemma length_del_server: "map_of svs h = Some s \<Longrightarrow> length (del_server h svs) < length svs"
proof -
  assume "map_of svs h = Some s"
  then have "(h, s) \<in> set svs" by (rule map_of_SomeD)
  then have "length (filter (\<lambda>hs. fst hs \<noteq> h) svs) < length svs"
    by (intro length_filter_less[of "(h, s)"]) auto
  then show ?thesis
    unfolding del_server_def .
qed

termination choose_random_server
proof (relation "measure (\<lambda>(E, c). length (servers c))", goal_cases)
  case 1
  show ?case by simp
next
  case (2 E c server)
  have "length (del_server (random_choice E c) (servers c)) < length (servers c)"
    using 2(2) by (rule length_del_server)
  then show ?case by simp
qed

declare choose_random_server.simps [simp del]

text \<open>
  The loop of \<^verbatim>\<open>change_server\<close>:
  \<^verbatim>\<open>while self.host in self.failed_hosts: self.host, self.port = self.choose_random_server()\<close>.
  The number bounds the iterations.
\<close>

fun while_host_failed :: "nat \<Rightarrow> env \<Rightarrow> client \<Rightarrow> unit result \<times> client" where
  "while_host_failed n E c =
     (if host c \<in> set (failed_hosts c) then
        (case n of
           0 \<Rightarrow> (Diverge, c)
         | Suc k \<Rightarrow>
             (case choose_random_server E c of
                (Ret (h, p), c1) \<Rightarrow> while_host_failed k E (c1\<lparr>host := Some h, port := p\<rparr>)
              | (Raise x, c1) \<Rightarrow> (Raise x, c1)
              | (Diverge, c1) \<Rightarrow> (Diverge, c1)))
      else (Ret (), c))"

declare while_host_failed.simps [simp del]

subsection \<open>Waiting for a batch\<close>

text \<open>
  What \<^verbatim>\<open>get_coroutines\<close> hands to \<^verbatim>\<open>asyncio.gather\<close>: the coroutine waiting for
  the response to an id, or, on the failover path, a result dictionary, which is not
  awaitable.
\<close>

datatype awaitable = WaitFor nat | NotAwaitable rpc_result

text \<open>
  \<^verbatim>\<open>asyncio.wait_for(self.rpc_client.wait_for_response(id_), self.timeout)\<close> inside
  \<^verbatim>\<open>get_coroutines\<close> creates the coroutine objects and runs none of their code, so it
  returns and raises nothing, whatever the timeout.
\<close>

definition wait_for :: "nat \<Rightarrow> int \<Rightarrow> exn + awaitable" where
  "wait_for i t = Inr (WaitFor i)"

text \<open>
  Modelled from the spec: \<^verbatim>\<open>JSONSession.process_pending_items\<close> (\<^verbatim>\<open>jsonrpc.py\<close> is not
  among the sources). Section 4.2: an inbound frame resolves the pending request that
  carries its id by calling the handler recorded for it; a resolved request is removed
  from the pending table. A frame whose id is not pending is not for this table.
\<close>

fun process_pending_items :: "frame list \<Rightarrow> client \<Rightarrow> unit result \<times> client" where
  "process_pending_items [] c = (Ret (), c)"
| "process_pending_items (f # fs) c =
     (case rpc_client c of
        None \<Rightarrow> (Raise AttributeError, c)
      | Some s \<Rightarrow>
          (case pending s (frame_id f) of
             None \<Rightarrow> process_pending_items fs c
           | Some h \<Rightarrow>
               (case invoke_handler h (frame_id f) (frame_data f) (frame_error f) of
                  Inl x \<Rightarrow> (Raise x, c)
                | Inr (Store r) \<Rightarrow>
                    process_pending_items fs
                      (c\<lparr>rpc_client := Some (s\<lparr>pending := (pending s)(frame_id f := None),
                                                 results := (results s)(frame_id f \<mapsto> r)\<rparr>)\<rparr>)
                | Inr (Called cb args) \<Rightarrow>
                    process_pending_items fs (c\<lparr>callback_log := callback_log c @ [(cb, args)]\<rparr>))))"

text \<open>
  \<^verbatim>\<open>asyncio.gather\<close> refuses an argument that is not awaitable with a
  \<^verbatim>\<open>TypeError\<close>, before anything runs.
\<close>

fun awaited_ids :: "awaitable list \<Rightarrow> exn + nat list" where
  "awaited_ids [] = Inr []"
| "awaited_ids (WaitFor i # as) = (case awaited_ids as of Inl x \<Rightarrow> Inl x | Inr is \<Rightarrow> Inr (i # is))"
| "awaited_ids (NotAwaitable r # as) = Inl TypeError"

text \<open>
  \<^verbatim>\<open>RPCClient.wait_for_response\<close> for each awaited id, in the order of the
  arguments of \<^verbatim>\<open>gather\<close>: \<^verbatim>\<open>return self.result.pop(id_)\<close>, or the
  \<^verbatim>\<open>asyncio.TimeoutError\<close> of \<^verbatim>\<open>wait_for\<close> when no response for the id came in time.
\<close>

fun collect :: "nat list \<Rightarrow> session \<Rightarrow> rpc_result list result \<times> session" where
  "collect [] s = (Ret [], s)"
| "collect (i # is) s =
     (case results s i of
        None \<Rightarrow> (Raise AsyncioTimeoutError, s)
      | Some r \<Rightarrow>
          (case collect is (s\<lparr>results := (results s)(i := None)\<rparr>) of
             (Ret rs, s') \<Rightarrow> (Ret (r # rs), s')
           | (Raise x, s') \<Rightarrow> (Raise x, s')
           | (Diverge, s') \<Rightarrow> (Diverge, s')))"

text \<open>\<^verbatim>\<open>self.loop.run_until_complete(asyncio.gather(*coroutines))\<close>.\<close>

definition run_until_complete_gather ::
  "env \<Rightarrow> client \<Rightarrow> awaitable list \<Rightarrow> rpc_result list result \<times> client" where
  "run_until_complete_gather E c coroutines =
     (case awaited_ids coroutines of
        Inl x \<Rightarrow> (Raise x, c)
      | Inr [] \<Rightarrow> (Ret [], c)
      | Inr (i # is) \<Rightarrow>
          (case process_pending_items (inbound E (gathers c)) (c\<lparr>gathers := Suc (gathers c)\<rparr>) of
             (Raise x, c1) \<Rightarrow> (Raise x, c1)
           | (Diverge, c1) \<Rightarrow> (Diverge, c1)
           | (Ret u, c1) \<Rightarrow>
               (case rpc_client c1 of
                  None \<Rightarrow> (Raise AttributeError, c1)
                | Some s \<Rightarrow>
                    (case collect (i # is) s of
                       (Ret rs, s') \<Rightarrow> (Ret rs, c1\<lparr>rpc_client := Some s'\<rparr>)
                     | (Raise x, s') \<Rightarrow> (Raise x, c1\<lparr>rpc_client := Some s'\<rparr>)
                     | (Diverge, s') \<Rightarrow> (Diverge, c1\<lparr>rpc_client := Some s'\<rparr>)))))"

subsection \<open>Connecting, failing over and sending batches\<close>

text \<open>The request builders, \<^verbatim>\<open>_server_version\<close> and the like.\<close>

definition req_server_version :: "client \<Rightarrow> request" where
  "req_server_version c = (''server.version'', [JStr (client_name c), protocol_version c])"

definition req_estimate_fee :: "int \<Rightarrow> request" where
  "req_estimate_fee numblocks = (''blockchain.estimatefee'', [JInt numblocks])"

definition req_broadcast_transaction :: "json \<Rightarrow> request" where
  "req_broadcast_transaction raw_tx = (''blockchain.transaction.broadcast'', [raw_tx])"


text \<open>
  The methods \<^verbatim>\<open>connect_to_server\<close>, \<^verbatim>\<open>change_server\<close>, \<^verbatim>\<open>get_coroutines\<close>,
  \<^verbatim>\<open>rpc_multiple_send_and_wait\<close> and \<^verbatim>\<open>run_command\<close> call one another. Each body
  is written first with the methods it calls as parameters, named after them; the
  methods themselves are then defined together, by the depth of nested calls they
  may make.
\<close>

type_synonym 'a call = "client \<Rightarrow> 'a result \<times> client"

text \<open>
  \<^verbatim>\<open>connect_to_server\<close>. \<^verbatim>\<open>self.server_version()\<close> is \<^verbatim>\<open>run_command\<close> on
  \<open>req_server_version\<close>. \<^verbatim>\<open>connection_made\<close> needs \<^verbatim>\<open>self.rpc_client\<close> not to be
  \<^verbatim>\<open>None\<close>.
\<close>

definition connect_to_server_body ::
  "unit call \<Rightarrow> (client \<Rightarrow> request \<Rightarrow> json result \<times> client) \<Rightarrow> env \<Rightarrow> unit call" where
  "connect_to_server_body change_server' run_command' E c =
     (let c0 = c\<lparr>conn_attempts := conn_attempts c @ [(host c, port c)]\<rparr>;
          body =
            (case create_connection E (length (conn_attempts c)) (host c) (port c) (use_ssl c) of
               ConnRaises x \<Rightarrow> (Raise x, c0)
             | ConnReturns tr has_client \<Rightarrow>
                 (let c1 = c0\<lparr>rpc_client := (if has_client then Some new_session else None)\<rparr>
                  in case (if tr = None then change_server' c1
                           else if has_client then (Ret (), c1)
                           else change_server' c1) of
                       (Raise x, c2) \<Rightarrow> (Raise x, c2)
                     | (Diverge, c2) \<Rightarrow> (Diverge, c2)
                     | (Ret u, c2) \<Rightarrow>
                         (case rpc_client c2 of
                            None \<Rightarrow> (Raise AttributeError, c2)
                          | Some s \<Rightarrow>
                              (case run_command' c2 (req_server_version c2) of
                                 (Ret result, c3) \<Rightarrow>
                                   (case py_getitem result 0 of
                                      Inl x \<Rightarrow> (Raise x, c3)
                                    | Inr v0 \<Rightarrow>
                                        (case py_getitem result 1 of
                                           Inl x \<Rightarrow>
                                             (Raise x, c3\<lparr>server_electrumx_version := Attr v0\<rparr>)
                                         | Inr v1 \<Rightarrow>
                                             (Ret (), c3\<lparr>server_electrumx_version := Attr v0,
                                                         server_protocol_version := Attr v1\<rparr>)))
                               | (Raise x, c3) \<Rightarrow>
                                   (case x of
                                      RPCResponseExecption e \<Rightarrow> change_server' c3
                                    | _ \<Rightarrow> (Raise x, c3))
                               | (Diverge, c3) \<Rightarrow> (Diverge, c3)))))
      in case body of
           (Raise x, c') \<Rightarrow> (if is_OSError x then change_server' c' else (Raise x, c'))
         | (Ret u, c') \<Rightarrow> (Ret u, c')
         | (Diverge, c') \<Rightarrow> (Diverge, c'))"

text \<open>\<^verbatim>\<open>change_server\<close>. Reading \<^verbatim>\<open>self.transport\<close> comes first.\<close>

definition change_server_body :: "unit call \<Rightarrow> unit call \<Rightarrow> unit call" where
  "change_server_body while_host_failed' connect_to_server' c =
     (case transport c of
        Unset \<Rightarrow> (Raise AttributeError, c)
      | Attr tr \<Rightarrow>
          (case (case tr of
                   None \<Rightarrow> (Ret (), c)
                 | Some t \<Rightarrow>
                     (case rpc_client c of
                        None \<Rightarrow> (Raise AttributeError, c)
                      | Some s \<Rightarrow> (Ret (), c\<lparr>transport := Attr None\<rparr>))) of
             (Raise x, c1) \<Rightarrow> (Raise x, c1)
           | (Diverge, c1) \<Rightarrow> (Diverge, c1)
           | (Ret u, c1) \<Rightarrow>
               (let c2 = (if host c1 \<in> set (failed_hosts c1) then c1
                          else c1\<lparr>failed_hosts := failed_hosts c1 @ [host c1]\<rparr>)
                in if max_servers c2 \<le> int (length (failed_hosts c2))
                   then (Raise (PyException (AttemptedServers (length (failed_hosts c2)))), c2)
                   else (case while_host_failed' c2 of
                           (Ret u, c3) \<Rightarrow> connect_to_server' c3
                         | (Raise x, c3) \<Rightarrow> (Raise x, c3)
                         | (Diverge, c3) \<Rightarrow> (Diverge, c3)))))"

text \<open>
  What both \<^verbatim>\<open>except\<close> clauses of \<^verbatim>\<open>get_coroutines\<close> do:
  \<^verbatim>\<open>self.change_server(); return self.rpc_multiple_send_and_wait(requests)\<close>. The
  values returned are result dictionaries, not coroutines.
\<close>

definition resubmit_body ::
  "unit call \<Rightarrow> (client \<Rightarrow> request list \<Rightarrow> rpc_result list result \<times> client)
     \<Rightarrow> client \<Rightarrow> request list \<Rightarrow> awaitable list result \<times> client" where
  "resubmit_body change_server' rpc_multiple_send_and_wait' c requests =
     (case change_server' c of
        (Ret u, c1) \<Rightarrow>
          (case rpc_multiple_send_and_wait' c1 requests of
             (Ret vs, c2) \<Rightarrow> (Ret (map NotAwaitable vs), c2)
           | (Raise x, c2) \<Rightarrow> (Raise x, c2)
           | (Diverge, c2) \<Rightarrow> (Diverge, c2))
      | (Raise x, c1) \<Rightarrow> (Raise x, c1)
      | (Diverge, c1) \<Rightarrow> (Diverge, c1))"

text \<open>
  The loop of \<^verbatim>\<open>get_coroutines\<close>, over the requests still to send, with the whole
  batch (for the resubmission) and the coroutines made so far.
\<close>

fun get_coroutines_loop ::
  "(client \<Rightarrow> request list \<Rightarrow> awaitable list result \<times> client) \<Rightarrow> env \<Rightarrow> client
     \<Rightarrow> request list \<Rightarrow> request list \<Rightarrow> awaitable list \<Rightarrow> awaitable list result \<times> client" where
  "get_coroutines_loop resubmit' E c requests [] coroutines = (Ret coroutines, c)"
| "get_coroutines_loop resubmit' E c requests (request # rest) coroutines =
     (case rpc_client c of
        None \<Rightarrow> (Raise AttributeError, c)
      | Some s \<Rightarrow>
          (case send_raises E (send_count c) of
             Some x \<Rightarrow>
               (if is_OSError x then resubmit' (c\<lparr>send_count := Suc (send_count c)\<rparr>) requests
                else (Raise x, c\<lparr>send_count := Suc (send_count c)\<rparr>))
           | None \<Rightarrow>
               (let sent_id = send_rpc_request s (fst request) (snd request) HandleResponse;
                    c1 = c\<lparr>rpc_client := Some (snd sent_id),
                           send_count := Suc (send_count c),
                           sent := sent c @ [(host c, fst sent_id, request)]\<rparr>
                in case wait_for (fst sent_id) (timeout c1) of
                     Inr coro \<Rightarrow>
                       get_coroutines_loop resubmit' E c1 requests rest (coroutines @ [coro])
                   | Inl x \<Rightarrow>
                       (if x = AsyncioTimeoutError then
                          (case resubmit' c1 requests of
                             (Raise y, c2) \<Rightarrow>
                               (if is_OSError y then resubmit' c2 requests else (Raise y, c2))
                           | (Ret vs, c2) \<Rightarrow> (Ret vs, c2)
                           | (Diverge, c2) \<Rightarrow> (Diverge, c2))
                        else if is_OSError x then resubmit' c1 requests
                        else (Raise x, c1)))))"

definition rpc_multiple_send_and_wait_body ::
  "(client \<Rightarrow> request list \<Rightarrow> awaitable list result \<times> client) \<Rightarrow> env \<Rightarrow> client
     \<Rightarrow> request list \<Rightarrow> rpc_result list result \<times> client" where
  "rpc_multiple_send_and_wait_body get_coroutines' E c requests =
     (case get_coroutines' c requests of
        (Ret coroutines, c1) \<Rightarrow>
          (case run_until_complete_gather E c1 coroutines of
             (Ret vs, c2) \<Rightarrow> (Ret vs, c2\<lparr>failed_hosts := []\<rparr>)
           | (Raise x, c2) \<Rightarrow> (Raise x, c2)
           | (Diverge, c2) \<Rightarrow> (Diverge, c2))
      | (Raise x, c1) \<Rightarrow> (Raise x, c1)
      | (Diverge, c1) \<Rightarrow> (Diverge, c1))"

definition run_command_body ::
  "(client \<Rightarrow> request list \<Rightarrow> rpc_result list result \<times> client)
     \<Rightarrow> client \<Rightarrow> request \<Rightarrow> json result \<times> client" where
  "run_command_body rpc_multiple_send_and_wait' c request =
     (case rpc_multiple_send_and_wait' c [request] of
        (Ret vs, c1) \<Rightarrow>
          (case vs of
             [] \<Rightarrow> (Raise IndexError, c1)
           | r # others \<Rightarrow>
               (if truthy (error r) then (Raise (RPCResponseExecption (error r)), c1)
                else (Ret (data r), c1)))
      | (Raise x, c1) \<Rightarrow> (Raise x, c1)
      | (Diverge, c1) \<Rightarrow> (Diverge, c1))"

text \<open>The methods at a given depth of nested calls; at depth 0 every call is cut off.\<close>

record methods =
  m_connect_to_server :: "unit call"
  m_change_server :: "unit call"
  m_resubmit :: "client \<Rightarrow> request list \<Rightarrow> awaitable list result \<times> client"
  m_get_coroutines :: "client \<Rightarrow> request list \<Rightarrow> awaitable list result \<times> client"
  m_rpc_multiple_send_and_wait :: "client \<Rightarrow> request list \<Rightarrow> rpc_result list result \<times> client"
  m_run_command :: "client \<Rightarrow> request \<Rightarrow> json result \<times> client"

primrec methods_at :: "nat \<Rightarrow> env \<Rightarrow> methods" where
  "methods_at 0 E =
     \<lparr>m_connect_to_server = (\<lambda>c. (Diverge, c)),
      m_change_server = (\<lambda>c. (Diverge, c)),
      m_resubmit = (\<lambda>c rs. (Diverge, c)),
      m_get_coroutines = (\<lambda>c rs. (Diverge, c)),
      m_rpc_multiple_send_and_wait = (\<lambda>c rs. (Diverge, c)),
      m_run_command = (\<lambda>c r. (Diverge, c))\<rparr>"
| "methods_at (Suc n) E =
     \<lparr>m_connect_to_server =
        connect_to_server_body (m_change_server (methods_at n E)) (m_run_command (methods_at n E)) E,
      m_change_server =
        change_server_body (while_host_failed n E) (m_connect_to_server (methods_at n E)),
      m_resubmit =
        resubmit_body (m_change_server (methods_at n E))
          (m_rpc_multiple_send_and_wait (methods_at n E)),
      m_get_coroutines =
        (\<lambda>c rs. get_coroutines_loop (m_resubmit (methods_at n E)) E c rs rs []),
      m_rpc_multiple_send_and_wait =
        rpc_multiple_send_and_wait_body (m_get_coroutines (methods_at n E)) E,
      m_run_command = run_command_body (m_rpc_multiple_send_and_wait (methods_at n E))\<rparr>"

definition connect_to_server :: "nat \<Rightarrow> env \<Rightarrow> unit call" where
  "connect_to_server n E = m_connect_to_server (methods_at n E)"

definition change_server :: "nat \<Rightarrow> env \<Rightarrow> unit call" where
  "change_server n E = m_change_server (methods_at n E)"

definition resubmit ::
  "nat \<Rightarrow> env \<Rightarrow> client \<Rightarrow> request list \<Rightarrow> awaitable list result \<times> client" where
  "resubmit n E = m_resubmit (methods_at n E)"

definition get_coroutines ::
  "nat \<Rightarrow> env \<Rightarrow> client \<Rightarrow> request list \<Rightarrow> awaitable list result \<times> client" where
  "get_coroutines n E = m_get_coroutines (methods_at n E)"

definition rpc_multiple_send_and_wait ::
  "nat \<Rightarrow> env \<Rightarrow> client \<Rightarrow> request list \<Rightarrow> rpc_result list result \<times> client" where
  "rpc_multiple_send_and_wait n E = m_rpc_multiple_send_and_wait (methods_at n E)"

definition run_command :: "nat \<Rightarrow> env \<Rightarrow> client \<Rightarrow> request \<Rightarrow> json result \<times> client" where
  "run_command n E = m_run_command (methods_at n E)"

text \<open>\<^verbatim>\<open>estimate_fee\<close>, and the fee cache in front of it. Time is in microseconds.\<close>

definition estimate_fee :: "nat \<Rightarrow> env \<Rightarrow> client \<Rightarrow> int \<Rightarrow> json result \<times> client" where
  "estimate_fee n E c numblocks = run_command n E c (req_estimate_fee numblocks)"

definition timedelta_minutes :: "int \<Rightarrow> int" where
  "timedelta_minutes m = m * 60000000"

definition estimate_fee_cached ::
  "nat \<Rightarrow> env \<Rightarrow> client \<Rightarrow> int \<Rightarrow> int \<Rightarrow> int \<Rightarrow> json result \<times> client" where
  "estimate_fee_cached n E c now numblocks cache =
     (case (case fees c numblocks of
              None \<Rightarrow> None
            | Some entry \<Rightarrow> if expiry entry \<le> now then Some (fee entry) else None) of
        Some cached \<Rightarrow> (Ret cached, c)
      | None \<Rightarrow>
          (case estimate_fee n E c numblocks of
             (Ret f, c1) \<Rightarrow>
               (Ret f, c1\<lparr>fees := (fees c1)(numblocks \<mapsto>
                                  \<lparr>fee = f, expiry = now + timedelta_minutes cache\<rparr>)\<rparr>)
           | (Raise x, c1) \<Rightarrow> (Raise x, c1)
           | (Diverge, c1) \<Rightarrow> (Diverge, c1)))"

text \<open>
  \<^verbatim>\<open>broadcast_transaction\<close> evaluates \<^verbatim>\<open>self.broadcast_transaction(raw_tx)\<close> as the
  argument of \<^verbatim>\<open>run_command\<close>. \<open>as_request\<close> is the unpacking
  \<^verbatim>\<open>method, params = request\<close> of whatever that call would return.
\<close>

fun as_request :: "json \<Rightarrow> exn + request" where
  "as_request (JList [JStr m, JList ps]) = Inr (m, ps)"
| "as_request _ = Inl TypeError"

fun broadcast_transaction :: "nat \<Rightarrow> env \<Rightarrow> client \<Rightarrow> json \<Rightarrow> json result \<times> client" where
  "broadcast_transaction 0 E c raw_tx = (Diverge, c)"
| "broadcast_transaction (Suc n) E c raw_tx =
     (case broadcast_transaction n E c raw_tx of
        (Ret request, c1) \<Rightarrow>
          (case as_request request of
             Inl x \<Rightarrow> (Raise x, c1)
           | Inr r \<Rightarrow> run_command n E c1 r)
      | (Raise x, c1) \<Rightarrow> (Raise x, c1)
      | (Diverge, c1) \<Rightarrow> (Diverge, c1))"

subsection \<open>Subscriptions\<close>

fun rpc_subscribe_loop ::
  "env \<Rightarrow> client \<Rightarrow> request list \<Rightarrow> callback \<Rightarrow> nat list \<Rightarrow> nat list result \<times> client" where
  "rpc_subscribe_loop E c [] callback ids = (Ret ids, c)"
| "rpc_subscribe_loop E c (request # rest) callback ids =
     (case rpc_client c of
        None \<Rightarrow> (Raise AttributeError, c)
      | Some s \<Rightarrow>
          (case send_raises E (send_count c) of
             Some x \<Rightarrow> (Raise x, c\<lparr>send_count := Suc (send_count c)\<rparr>)
           | None \<Rightarrow>
               (let sent_id = send_rpc_request s (fst request) (snd request) callback;
                    c1 = c\<lparr>rpc_client := Some (snd sent_id),
                           send_count := Suc (send_count c),
                           sent := sent c @ [(host c, fst sent_id, request)]\<rparr>
                in rpc_subscribe_loop E c1 rest callback (ids @ [fst sent_id]))))"

definition rpc_subscribe ::
  "env \<Rightarrow> client \<Rightarrow> request list \<Rightarrow> callback \<Rightarrow> nat list result \<times> client" where
  "rpc_subscribe E c requests callback = rpc_subscribe_loop E c requests callback []"


subsection \<open>Construction\<close>

text \<open>
  The arguments of \<^verbatim>\<open>__init__\<close> that the modelled paths read; \<open>arg_server_file\<close> is
  what \<^verbatim>\<open>read_json(server_file, {})\<close> yields.
\<close>

record init_args =
  arg_server_file :: "(string \<times> (string \<times> json) list) list"
  arg_servers :: "(string \<times> (string \<times> json) list) list"
  arg_host :: "string option"
  arg_port :: json
  arg_use_ssl :: bool
  arg_timeout :: int
  arg_max_servers :: int
  arg_protocol_version :: json
  arg_client_name :: string

text \<open>The attributes as \<^verbatim>\<open>__init__\<close> has set them when it reaches \<^verbatim>\<open>if not self.host\<close>.\<close>

definition init_state :: "init_args \<Rightarrow> client" where
  "init_state a =
     \<lparr>use_ssl = arg_use_ssl a,
      fees = Map.empty,
      client_name = arg_client_name a,
      protocol_version = arg_protocol_version a,
      timeout = arg_timeout a,
      failed_hosts = [],
      max_servers = arg_max_servers a,
      servers = usable_servers (arg_use_ssl a)
                  (if arg_servers a = [] then arg_server_file a else arg_servers a),
      host = arg_host a,
      port = arg_port a,
      rpc_client = None,
      transport = Unset,
      server_electrumx_version = Unset,
      server_protocol_version = Unset,
      rand_pos = 0,
      conn_attempts = [],
      send_count = 0,
      sent = [],
      gathers = 0,
      callback_log = []\<rparr>"

definition init :: "nat \<Rightarrow> env \<Rightarrow> init_args \<Rightarrow> unit result \<times> client" where
  "init n E a =
     (let c = init_state a
      in if host c = None \<or> host c = Some []
         then (case choose_random_server E c of
                 (Ret hp, c1) \<Rightarrow> connect_to_server n E (c1\<lparr>host := Some (fst hp), port := snd hp\<rparr>)
               | (Raise x, c1) \<Rightarrow> (Raise x, c1)
               | (Diverge, c1) \<Rightarrow> (Diverge, c1))
         else connect_to_server n E c)"

text \<open>
  The states a client can be in: as \<^verbatim>\<open>__init__\<close> sets the attributes, and after any
  of the methods above, however it ends.
\<close>

inductive reachable :: "client \<Rightarrow> bool" where
  r_init: "reachable (init_state a)"
| r_choose: "reachable c \<Longrightarrow> choose_random_server E c = (r, c') \<Longrightarrow> reachable c'"
| r_host: "reachable c \<Longrightarrow> reachable (c\<lparr>host := h, port := p\<rparr>)"
| r_connect: "reachable c \<Longrightarrow> connect_to_server n E c = (ru, c') \<Longrightarrow> reachable c'"
| r_change: "reachable c \<Longrightarrow> change_server n E c = (ru, c') \<Longrightarrow> reachable c'"
| r_batch: "reachable c \<Longrightarrow> rpc_multiple_send_and_wait n E c requests = (rr, c') \<Longrightarrow> reachable c'"
| r_command: "reachable c \<Longrightarrow> run_command n E c request = (rj, c') \<Longrightarrow> reachable c'"
| r_fee: "reachable c \<Longrightarrow> estimate_fee_cached n E c now numblocks cache = (rj, c') \<Longrightarrow> reachable c'"
| r_broadcast: "reachable c \<Longrightarrow> broadcast_transaction n E c raw_tx = (rj, c') \<Longrightarrow> reachable c'"
| r_subscribe: "reachable c \<Longrightarrow> rpc_subscribe E c requests cb = (rn, c') \<Longrightarrow> reachable c'"




text \<open>The registry of \<open>c'\<close> has no entry that the registry of \<open>c\<close> lacks.\<close>

definition shrinks :: "client \<Rightarrow> client \<Rightarrow> bool" where
  "shrinks c c' \<longleftrightarrow> set (servers c') \<subseteq> set (servers c)"

text \<open>No \<^verbatim>\<open>transport\<close> attribute and no failed host, and a step that keeps it so and keeps the registry.\<close>

definition calm :: "client \<Rightarrow> bool" where
  "calm c \<longleftrightarrow> transport c = Unset \<and> failed_hosts c = []"

definition kept :: "client \<Rightarrow> client \<Rightarrow> bool" where
  "kept c c' \<longleftrightarrow>
     (calm c \<longrightarrow> calm c' \<and> servers c' = servers c \<and> use_ssl c' = use_ssl c)"

section \<open>Scenarios\<close>

text \<open>Surroundings in which every connection is refused and nothing ever arrives.\<close>

definition refusing_env :: env where
  "refusing_env =
     \<lparr>random_draw = (\<lambda>i. 0),
      create_connection = (\<lambda>i h p s. ConnRaises OSError),
      send_raises = (\<lambda>i. None),
      inbound = (\<lambda>i. [])\<rparr>"

text \<open>A client made with three TLS servers and \<^verbatim>\<open>max_servers=3\<close>.\<close>

definition three_servers :: init_args where
  "three_servers =
     \<lparr>arg_server_file = [],
      arg_servers = [(''a.example'', [(''s'', JStr ''50002'')]),
                     (''b.example'', [(''s'', JStr ''50002'')]),
                     (''c.example'', [(''s'', JStr ''50002'')])],
      arg_host = None,
      arg_port = JInt 50002,
      arg_use_ssl = True,
      arg_timeout = 15,
      arg_max_servers = 3,
      arg_protocol_version = JList [JStr ''1.1'', JStr ''1.1''],
      arg_client_name = ''cryptos''\<rparr>"

text \<open>The same catalog for a client made with \<^verbatim>\<open>use_ssl=False\<close>: no entry has a \<^verbatim>\<open>'t'\<close> port.\<close>

definition no_tls_catalog :: init_args where
  "no_tls_catalog = three_servers\<lparr>arg_use_ssl := False\<rparr>"

text \<open>A client whose \<^verbatim>\<open>use_ssl\<close> was switched off after it was made with the three servers.\<close>

definition switched_to_plain :: client where
  "switched_to_plain = (init_state three_servers)\<lparr>use_ssl := False\<rparr>"


text \<open>
  Surroundings in which every connection succeeds and every send goes out; what arrives
  while the \<open>k\<close>-th batch is waited for is given.
\<close>

definition serving :: "(nat \<Rightarrow> frame list) \<Rightarrow> env" where
  "serving arrivals =
     \<lparr>random_draw = (\<lambda>i. 0),
      create_connection = (\<lambda>i h p s. ConnReturns (Some i) True),
      send_raises = (\<lambda>i. None),
      inbound = arrivals\<rparr>"

text \<open>The server's answer to the handshake, the request with id 0.\<close>

definition version_reply :: frame where
  "version_reply =
     \<lparr>frame_id = 0, frame_data = JList [JStr ''ElectrumX 1.4'', JStr ''1.1''], frame_error = JNull\<rparr>"

text \<open>A client made with \<^verbatim>\<open>host='a.example'\<close>.\<close>

definition one_host :: init_args where
  "one_host = three_servers\<lparr>arg_host := Some ''a.example''\<rparr>"

text \<open>The server answers the handshake and nothing after it.\<close>

definition silent_after_handshake :: env where
  "silent_after_handshake = serving (\<lambda>k. if k = 0 then [version_reply] else [])"

text \<open>
  The client that \<^verbatim>\<open>__init__\<close> leaves after a successful handshake. The surroundings
  below differ from \<open>silent_after_handshake\<close> only in what arrives after the handshake.
\<close>

definition connected :: client where
  "connected = snd (init 4 silent_after_handshake one_host)"

text \<open>The server answers the next two requests with the fees 20 and 30.\<close>

definition fee_replies :: env where
  "fee_replies =
     serving (\<lambda>k. if k = 0 then [version_reply]
                   else if k = 1 then [\<lparr>frame_id = 1, frame_data = JInt 20, frame_error = JNull\<rparr>]
                   else if k = 2 then [\<lparr>frame_id = 2, frame_data = JInt 30, frame_error = JNull\<rparr>]
                   else [])"

definition after_first_estimate :: client where
  "after_first_estimate = snd (estimate_fee_cached 4 fee_replies connected 0 6 10)"

definition after_second_estimate :: client where
  "after_second_estimate =
     snd (estimate_fee_cached 4 fee_replies after_first_estimate (timedelta_minutes 1) 6 10)"




section \<open>Unfolding the methods\<close>

lemma connect_to_server_0 [code]: "connect_to_server 0 E c = (Diverge, c)"
  by (simp add: connect_to_server_def)

lemma connect_to_server_Suc [code]:
  "connect_to_server (Suc n) E c =
     connect_to_server_body (change_server n E) (run_command n E) E c"
  by (simp add: connect_to_server_def change_server_def run_command_def)

lemma change_server_0 [code]: "change_server 0 E c = (Diverge, c)"
  by (simp add: change_server_def)

lemma change_server_Suc [code]:
  "change_server (Suc n) E c =
     change_server_body (while_host_failed n E) (connect_to_server n E) c"
  by (simp add: connect_to_server_def change_server_def)

lemma resubmit_0 [code]: "resubmit 0 E c rs = (Diverge, c)"
  by (simp add: resubmit_def)

lemma resubmit_Suc [code]:
  "resubmit (Suc n) E c rs =
     resubmit_body (change_server n E) (rpc_multiple_send_and_wait n E) c rs"
  by (simp add: resubmit_def change_server_def rpc_multiple_send_and_wait_def)

lemma get_coroutines_0 [code]: "get_coroutines 0 E c rs = (Diverge, c)"
  by (simp add: get_coroutines_def)

lemma get_coroutines_Suc [code]:
  "get_coroutines (Suc n) E c rs = get_coroutines_loop (resubmit n E) E c rs rs []"
  by (simp add: get_coroutines_def resubmit_def)

lemma rpc_multiple_send_and_wait_0 [code]: "rpc_multiple_send_and_wait 0 E c rs = (Diverge, c)"
  by (simp add: rpc_multiple_send_and_wait_def)

lemma rpc_multiple_send_and_wait_Suc [code]:
  "rpc_multiple_send_and_wait (Suc n) E c rs =
     rpc_multiple_send_and_wait_body (get_coroutines n E) E c rs"
  by (simp add: rpc_multiple_send_and_wait_def get_coroutines_def)

lemma run_command_0 [code]: "run_command 0 E c r = (Diverge, c)"
  by (simp add: run_command_def)

lemma run_command_Suc [code]:
  "run_command (Suc n) E c r = run_command_body (rpc_multiple_send_and_wait n E) c r"
  by (simp add: run_command_def rpc_multiple_send_and_wait_def)

section \<open>The server registry: facts\<close>

lemma choose_empty: "servers c = [] \<Longrightarrow> choose_random_server E c = (Raise IndexError, c)"
  by (subst choose_random_server.simps) simp

lemma choose_hit:
  "servers c \<noteq> [] \<Longrightarrow> map_of (servers c) (random_choice E c) = Some server
   \<Longrightarrow> map_of server (port_key (use_ssl c)) = Some p
   \<Longrightarrow> choose_random_server E c =
       (Ret (random_choice E c, p), c\<lparr>rand_pos := Suc (rand_pos c)\<rparr>)"
  by (subst choose_random_server.simps) simp

lemma choose_miss:
  "servers c \<noteq> [] \<Longrightarrow> map_of (servers c) (random_choice E c) = Some server
   \<Longrightarrow> map_of server (port_key (use_ssl c)) = None
   \<Longrightarrow> choose_random_server E c =
       choose_random_server E
         (c\<lparr>rand_pos := Suc (rand_pos c),
            servers := del_server (random_choice E c) (servers c)\<rparr>)"
  by (subst choose_random_server.simps) simp

lemma random_choice_in: "servers c \<noteq> [] \<Longrightarrow> random_choice E c \<in> fst ` set (servers c)"
proof -
  assume ne: "servers c \<noteq> []"
  then have "map fst (servers c) \<noteq> []" by simp
  then have "random_draw E (rand_pos c) mod length (map fst (servers c))
               < length (map fst (servers c))"
    by (intro mod_less_divisor) simp
  then have "random_choice E c \<in> set (map fst (servers c))"
    unfolding random_choice_def by (rule nth_mem)
  then show ?thesis by simp
qed

lemma random_choice_some: "servers c \<noteq> [] \<Longrightarrow> \<exists>server. map_of (servers c) (random_choice E c) = Some server"
  using random_choice_in[of c E] by (metis domD dom_map_of_conv_image_fst)

lemma choose_cases [consumes 0, case_names Empty Hit Miss]:
  assumes "servers c = [] \<Longrightarrow> P"
    and "\<And>server p. servers c \<noteq> [] \<Longrightarrow> map_of (servers c) (random_choice E c) = Some server
          \<Longrightarrow> map_of server (port_key (use_ssl c)) = Some p \<Longrightarrow> P"
    and "\<And>server. servers c \<noteq> [] \<Longrightarrow> map_of (servers c) (random_choice E c) = Some server
          \<Longrightarrow> map_of server (port_key (use_ssl c)) = None \<Longrightarrow> P"
  shows P
proof (cases "servers c = []")
  case True then show ?thesis by (rule assms(1))
next
  case False
  then obtain server where s: "map_of (servers c) (random_choice E c) = Some server"
    using random_choice_some by blast
  show ?thesis
  proof (cases "map_of server (port_key (use_ssl c))")
    case None with False s show ?thesis by (rule assms(3))
  next
    case (Some p) with False s show ?thesis by (rule assms(2))
  qed
qed

text \<open>Induction along the retries.\<close>

lemma choose_induct [consumes 0, case_names Empty Hit Miss]:
  assumes e: "\<And>c. servers c = [] \<Longrightarrow> P c"
    and h: "\<And>c server p. servers c \<noteq> [] \<Longrightarrow> map_of (servers c) (random_choice E c) = Some server
          \<Longrightarrow> map_of server (port_key (use_ssl c)) = Some p \<Longrightarrow> P c"
    and m: "\<And>c server. servers c \<noteq> [] \<Longrightarrow> map_of (servers c) (random_choice E c) = Some server
          \<Longrightarrow> map_of server (port_key (use_ssl c)) = None
          \<Longrightarrow> P (c\<lparr>rand_pos := Suc (rand_pos c), servers := del_server (random_choice E c) (servers c)\<rparr>)
          \<Longrightarrow> P c"
  shows "P c"
proof (induction "length (servers c)" arbitrary: c rule: less_induct)
  case less
  show ?case
  proof (cases rule: choose_cases[of c _ E])
    case Empty then show ?thesis by (rule e)
  next
    case (Hit server p) then show ?thesis by (rule h)
  next
    case (Miss server)
    have "length (del_server (random_choice E c) (servers c)) < length (servers c)"
      using Miss(2) by (rule length_del_server)
    then have "P (c\<lparr>rand_pos := Suc (rand_pos c), servers := del_server (random_choice E c) (servers c)\<rparr>)"
      by (intro less) simp
    with Miss show ?thesis by (rule m)
  qed
qed

lemma choose_random_server_transport:
  "transport (snd (choose_random_server E c)) = transport c"
proof (induction c rule: choose_induct[where E = E])
  case (Empty c) then show ?case by (simp add: choose_empty)
next
  case (Hit c server p) then show ?case by (simp add: choose_hit)
next
  case (Miss c server) then show ?case by (simp add: choose_miss)
qed

lemma while_host_failed_transport:
  "transport (snd (while_host_failed n E c)) = transport c"
proof (induction n arbitrary: c)
  case 0
  show ?case by (simp add: while_host_failed.simps)
next
  case (Suc n)
  have t: "\<And>r c1. choose_random_server E c = (r, c1) \<Longrightarrow> transport c1 = transport c"
    using choose_random_server_transport[of E c] by simp
  show ?case
    apply (subst while_host_failed.simps)
    using Suc t by (auto split: prod.splits result.splits)
qed

lemma process_pending_items_transport:
  "transport (snd (process_pending_items fs c)) = transport c"
  by (induction fs c rule: process_pending_items.induct)
     (auto split: option.splits sum.splits effect.splits)

lemma run_until_complete_gather_transport:
  "transport (snd (run_until_complete_gather E c cs)) = transport c"
proof -
  have t: "\<And>fs c0 r c1. process_pending_items fs c0 = (r, c1) \<Longrightarrow> transport c1 = transport c0"
    using process_pending_items_transport by (metis snd_conv)
  show ?thesis
    unfolding run_until_complete_gather_def
    by (auto split: sum.splits list.splits prod.splits result.splits option.splits dest!: t)
qed


lemma change_server_body_unset:
  "transport c = Unset \<Longrightarrow> change_server_body w k c = (Raise AttributeError, c)"
  by (simp add: change_server_body_def)

lemma connect_to_server_body_unset:
  assumes ch: "\<And>c r c'. change' c = (r, c') \<Longrightarrow> transport c = Unset \<Longrightarrow> transport c' = Unset"
    and rc: "\<And>c q r c'. run' c q = (r, c') \<Longrightarrow> transport c = Unset \<Longrightarrow> transport c' = Unset"
    and "connect_to_server_body change' run' E c = (r, c')" and "transport c = Unset"
  shows "transport c' = Unset"
  using assms(3,4) unfolding connect_to_server_body_def Let_def
  by (auto split: conn_outcome.splits prod.splits result.splits option.splits sum.splits
        exn.splits if_splits dest!: ch rc)

lemma resubmit_body_unset:
  assumes ch: "\<And>c r c'. change' c = (r, c') \<Longrightarrow> transport c = Unset \<Longrightarrow> transport c' = Unset"
    and rm: "\<And>c q r c'. multi' c q = (r, c') \<Longrightarrow> transport c = Unset \<Longrightarrow> transport c' = Unset"
    and "resubmit_body change' multi' c rs = (r, c')" and "transport c = Unset"
  shows "transport c' = Unset"
  using assms(3,4) unfolding resubmit_body_def
  by (auto split: prod.splits result.splits dest!: ch rm)

lemma get_coroutines_loop_unset:
  assumes rs: "\<And>c q r c'. resubmit' c q = (r, c') \<Longrightarrow> transport c = Unset \<Longrightarrow> transport c' = Unset"
  shows "get_coroutines_loop resubmit' E c requests todo acc = (r, c') \<Longrightarrow> transport c = Unset
         \<Longrightarrow> transport c' = Unset"
proof (induction todo arbitrary: c acc)
  case Nil
  then show ?case by simp
next
  case (Cons a todo)
  from Cons.prems show ?case
    by (auto simp: Let_def wait_for_def split: option.splits if_splits
          dest!: rs Cons.IH)
qed

lemma rpc_multiple_send_and_wait_body_unset:
  assumes gc: "\<And>c q r c'. get' c q = (r, c') \<Longrightarrow> transport c = Unset \<Longrightarrow> transport c' = Unset"
    and "rpc_multiple_send_and_wait_body get' E c rs = (r, c')" and "transport c = Unset"
  shows "transport c' = Unset"
proof -
  have g: "\<And>c0 cs r1 c1. run_until_complete_gather E c0 cs = (r1, c1) \<Longrightarrow> transport c1 = transport c0"
    using run_until_complete_gather_transport by (metis snd_conv)
  show ?thesis
    using assms(2,3) unfolding rpc_multiple_send_and_wait_body_def
    by (auto split: prod.splits result.splits dest!: gc g)
qed

lemma run_command_body_unset:
  assumes rm: "\<And>c q r c'. multi' c q = (r, c') \<Longrightarrow> transport c = Unset \<Longrightarrow> transport c' = Unset"
    and "run_command_body multi' c q = (r, c')" and "transport c = Unset"
  shows "transport c' = Unset"
  using assms(2,3) unfolding run_command_body_def
  by (auto split: prod.splits result.splits list.splits if_splits dest!: rm)


lemma methods_unset:
  "(\<forall>c r c'. connect_to_server n E c = (r, c') \<longrightarrow> transport c = Unset \<longrightarrow> transport c' = Unset) \<and>
   (\<forall>c r c'. change_server n E c = (r, c') \<longrightarrow> transport c = Unset \<longrightarrow> transport c' = Unset) \<and>
   (\<forall>c q r c'. resubmit n E c q = (r, c') \<longrightarrow> transport c = Unset \<longrightarrow> transport c' = Unset) \<and>
   (\<forall>c q r c'. get_coroutines n E c q = (r, c') \<longrightarrow> transport c = Unset \<longrightarrow> transport c' = Unset) \<and>
   (\<forall>c q r c'. rpc_multiple_send_and_wait n E c q = (r, c') \<longrightarrow> transport c = Unset
        \<longrightarrow> transport c' = Unset) \<and>
   (\<forall>c q r c'. run_command n E c q = (r, c') \<longrightarrow> transport c = Unset \<longrightarrow> transport c' = Unset)"
proof (induction n)
  case 0
  show ?case
    by (auto simp: connect_to_server_0 change_server_0 resubmit_0 get_coroutines_0
          rpc_multiple_send_and_wait_0 run_command_0)
next
  case (Suc n)
  have co: "\<And>c r c'. connect_to_server n E c = (r, c') \<Longrightarrow> transport c = Unset \<Longrightarrow> transport c' = Unset"
    and ch: "\<And>c r c'. change_server n E c = (r, c') \<Longrightarrow> transport c = Unset \<Longrightarrow> transport c' = Unset"
    and re: "\<And>c q r c'. resubmit n E c q = (r, c') \<Longrightarrow> transport c = Unset \<Longrightarrow> transport c' = Unset"
    and ge: "\<And>c q r c'. get_coroutines n E c q = (r, c') \<Longrightarrow> transport c = Unset \<Longrightarrow> transport c' = Unset"
    and mu: "\<And>c q r c'. rpc_multiple_send_and_wait n E c q = (r, c') \<Longrightarrow> transport c = Unset
               \<Longrightarrow> transport c' = Unset"
    and ru: "\<And>c q r c'. run_command n E c q = (r, c') \<Longrightarrow> transport c = Unset \<Longrightarrow> transport c' = Unset"
    using Suc by metis+
  have 1: "\<And>c r c'. connect_to_server (Suc n) E c = (r, c') \<Longrightarrow> transport c = Unset \<Longrightarrow> transport c' = Unset"
    unfolding connect_to_server_Suc by (rule connect_to_server_body_unset[OF ch ru])
  have 2: "\<And>c r c'. change_server (Suc n) E c = (r, c') \<Longrightarrow> transport c = Unset \<Longrightarrow> transport c' = Unset"
    unfolding change_server_Suc by (simp add: change_server_body_unset)
  have 3: "\<And>c q r c'. resubmit (Suc n) E c q = (r, c') \<Longrightarrow> transport c = Unset \<Longrightarrow> transport c' = Unset"
    unfolding resubmit_Suc by (rule resubmit_body_unset[OF ch mu])
  have 4: "\<And>c q r c'. get_coroutines (Suc n) E c q = (r, c') \<Longrightarrow> transport c = Unset \<Longrightarrow> transport c' = Unset"
    unfolding get_coroutines_Suc by (rule get_coroutines_loop_unset[OF re])
  have 5: "\<And>c q r c'. rpc_multiple_send_and_wait (Suc n) E c q = (r, c') \<Longrightarrow> transport c = Unset
             \<Longrightarrow> transport c' = Unset"
    unfolding rpc_multiple_send_and_wait_Suc by (rule rpc_multiple_send_and_wait_body_unset[OF ge])
  have 6: "\<And>c q r c'. run_command (Suc n) E c q = (r, c') \<Longrightarrow> transport c = Unset \<Longrightarrow> transport c' = Unset"
    unfolding run_command_Suc by (rule run_command_body_unset[OF mu])
  show ?case
    by (intro conjI allI impI) (erule 1 2 3 4 5 6, assumption)+
qed

lemma estimate_fee_cached_unset:
  "estimate_fee_cached n E c now numblocks cache = (r, c') \<Longrightarrow> transport c = Unset
   \<Longrightarrow> transport c' = Unset"
proof -
  have ru: "\<And>c q r c'. run_command n E c q = (r, c') \<Longrightarrow> transport c = Unset \<Longrightarrow> transport c' = Unset"
    using methods_unset[of n E] by metis
  assume "estimate_fee_cached n E c now numblocks cache = (r, c')" "transport c = Unset"
  then show ?thesis
    unfolding estimate_fee_cached_def estimate_fee_def
    by (auto split: option.splits prod.splits result.splits if_splits dest!: ru)
qed

lemma broadcast_transaction_diverges: "broadcast_transaction n E c raw_tx = (Diverge, c)"
  by (induction n) simp_all

lemma rpc_subscribe_loop_transport:
  "transport (snd (rpc_subscribe_loop E c requests cb ids)) = transport c"
  by (induction requests arbitrary: c ids) (auto simp: Let_def split: option.splits)

lemma reachable_unset: "reachable c \<Longrightarrow> transport c = Unset"
proof (induction rule: reachable.induct)
  case (r_init a)
  show ?case by (simp add: init_state_def)
next
  case (r_choose c E r c')
  then show ?case using choose_random_server_transport[of E c] by simp
next
  case (r_host c h p)
  then show ?case by simp
next
  case (r_connect c n E ru c')
  then show ?case using methods_unset[of n E] by metis
next
  case (r_change c n E ru c')
  then show ?case using methods_unset[of n E] by metis
next
  case (r_batch c n E requests rr c')
  then show ?case using methods_unset[of n E] by metis
next
  case (r_command c n E request rj c')
  then show ?case using methods_unset[of n E] by metis
next
  case (r_fee c n E now numblocks cache rj c')
  then show ?case using estimate_fee_cached_unset by blast
next
  case (r_broadcast c n E raw_tx rj c')
  then show ?case by (simp add: broadcast_transaction_diverges)
next
  case (r_subscribe c E requests cb rn c')
  then show ?case using rpc_subscribe_loop_transport[of E c requests cb "[]"]
    by (simp add: rpc_subscribe_def)
qed

lemma list_all_del_server: "list_all P svs \<Longrightarrow> list_all P (del_server h svs)"
  by (simp add: del_server_def list_all_iff)





lemma while_host_failed_exit:
  "while_host_failed n E c = (Ret u, c') \<Longrightarrow> host c' \<notin> set (failed_hosts c')"
proof (induction n arbitrary: c u)
  case 0
  then show ?case by (auto simp: while_host_failed.simps split: if_splits)
next
  case (Suc n)
  from Suc.prems show ?case
    apply (subst (asm) while_host_failed.simps)
    by (auto split: if_splits prod.splits result.splits dest: Suc.IH)
qed

section \<open>What the methods keep\<close>

lemma shrinks_refl [simp]: "shrinks c c"
  by (simp add: shrinks_def)


lemma shrinks_same: "servers c'' = servers c' \<Longrightarrow> shrinks c c' \<Longrightarrow> shrinks c c''"
  by (simp add: shrinks_def)

lemma shrinks_from: "servers c0 = servers c \<Longrightarrow> shrinks c0 c' \<Longrightarrow> shrinks c c'"
  by (simp add: shrinks_def)

lemma shrinks_update [simp]:
  "shrinks c (c'\<lparr>conn_attempts := x1\<rparr>) = shrinks c c'"
  "shrinks c (c'\<lparr>rpc_client := x2\<rparr>) = shrinks c c'"
  "shrinks c (c'\<lparr>server_electrumx_version := x3\<rparr>) = shrinks c c'"
  "shrinks c (c'\<lparr>server_protocol_version := x4\<rparr>) = shrinks c c'"
  "shrinks c (c'\<lparr>transport := x5\<rparr>) = shrinks c c'"
  "shrinks c (c'\<lparr>failed_hosts := x6\<rparr>) = shrinks c c'"
  "shrinks c (c'\<lparr>send_count := x7\<rparr>) = shrinks c c'"
  "shrinks c (c'\<lparr>sent := x8\<rparr>) = shrinks c c'"
  "shrinks c (c'\<lparr>fees := x9\<rparr>) = shrinks c c'"
  "shrinks c (c'\<lparr>host := y1\<rparr>) = shrinks c c'"
  "shrinks c (c'\<lparr>port := y2\<rparr>) = shrinks c c'"
  "shrinks c (c'\<lparr>gathers := y3\<rparr>) = shrinks c c'"
  "shrinks c (c'\<lparr>rand_pos := y4\<rparr>) = shrinks c c'"
  "shrinks c (c'\<lparr>callback_log := y5\<rparr>) = shrinks c c'"
  "shrinks (c\<lparr>conn_attempts := x1\<rparr>) c' = shrinks c c'"
  "shrinks (c\<lparr>rpc_client := x2\<rparr>) c' = shrinks c c'"
  "shrinks (c\<lparr>server_electrumx_version := x3\<rparr>) c' = shrinks c c'"
  "shrinks (c\<lparr>server_protocol_version := x4\<rparr>) c' = shrinks c c'"
  "shrinks (c\<lparr>transport := x5\<rparr>) c' = shrinks c c'"
  "shrinks (c\<lparr>failed_hosts := x6\<rparr>) c' = shrinks c c'"
  "shrinks (c\<lparr>send_count := x7\<rparr>) c' = shrinks c c'"
  "shrinks (c\<lparr>sent := x8\<rparr>) c' = shrinks c c'"
  "shrinks (c\<lparr>fees := x9\<rparr>) c' = shrinks c c'"
  "shrinks (c\<lparr>host := y1\<rparr>) c' = shrinks c c'"
  "shrinks (c\<lparr>port := y2\<rparr>) c' = shrinks c c'"
  "shrinks (c\<lparr>gathers := y3\<rparr>) c' = shrinks c c'"
  "shrinks (c\<lparr>rand_pos := y4\<rparr>) c' = shrinks c c'"
  "shrinks (c\<lparr>callback_log := y5\<rparr>) c' = shrinks c c'"
  by (simp_all add: shrinks_def)















lemma kept_refl [simp]: "kept c c"
  by (simp add: kept_def)




lemma kept_update [simp]:
  "kept c (c'\<lparr>conn_attempts := x0\<rparr>) = kept c c'"
  "kept c (c'\<lparr>rpc_client := x1\<rparr>) = kept c c'"
  "kept c (c'\<lparr>server_electrumx_version := x2\<rparr>) = kept c c'"
  "kept c (c'\<lparr>server_protocol_version := x3\<rparr>) = kept c c'"
  "kept c (c'\<lparr>send_count := x4\<rparr>) = kept c c'"
  "kept c (c'\<lparr>sent := x5\<rparr>) = kept c c'"
  "kept c (c'\<lparr>fees := x6\<rparr>) = kept c c'"
  "kept c (c'\<lparr>host := x7\<rparr>) = kept c c'"
  "kept c (c'\<lparr>port := x8\<rparr>) = kept c c'"
  "kept c (c'\<lparr>gathers := x9\<rparr>) = kept c c'"
  "kept c (c'\<lparr>rand_pos := x10\<rparr>) = kept c c'"
  "kept c (c'\<lparr>callback_log := x11\<rparr>) = kept c c'"
  "kept (c\<lparr>conn_attempts := x0\<rparr>) c' = kept c c'"
  "kept (c\<lparr>rpc_client := x1\<rparr>) c' = kept c c'"
  "kept (c\<lparr>server_electrumx_version := x2\<rparr>) c' = kept c c'"
  "kept (c\<lparr>server_protocol_version := x3\<rparr>) c' = kept c c'"
  "kept (c\<lparr>send_count := x4\<rparr>) c' = kept c c'"
  "kept (c\<lparr>sent := x5\<rparr>) c' = kept c c'"
  "kept (c\<lparr>fees := x6\<rparr>) c' = kept c c'"
  "kept (c\<lparr>host := x7\<rparr>) c' = kept c c'"
  "kept (c\<lparr>port := x8\<rparr>) c' = kept c c'"
  "kept (c\<lparr>gathers := x9\<rparr>) c' = kept c c'"
  "kept (c\<lparr>rand_pos := x10\<rparr>) c' = kept c c'"
  "kept (c\<lparr>callback_log := x11\<rparr>) c' = kept c c'"
  by (simp_all add: kept_def calm_def)
















section \<open>Subscribing\<close>


section \<open>The claims\<close>

text \<open>
  C3. \<^verbatim>\<open>change_server\<close> begins by reading \<^verbatim>\<open>self.transport\<close>. No path assigns that
  attribute before \<^verbatim>\<open>change_server\<close> itself does: \<^verbatim>\<open>__init__\<close> never sets it and
  \<^verbatim>\<open>connect_to_server\<close> binds the transport it creates to a local variable only. So in
  every state a client can reach, a call of \<^verbatim>\<open>change_server\<close> raises
  \<^verbatim>\<open>AttributeError\<close> and leaves the client as it was: no stale connection is closed,
  no host is recorded as failed, no other server is tried.
\<close>

theorem change_server_raises_AttributeError:
  assumes "reachable c"
  shows "change_server (Suc n) E c = (Raise AttributeError, c)"
proof -
  from assms have "transport c = Unset"
    by (rule reachable_unset)
  then have "change_server_body (while_host_failed n E) (connect_to_server n E) c =
      (Raise AttributeError, c)"
    by (rule change_server_body_unset)
  then show ?thesis
    by (simp only: change_server_Suc)
qed

theorem change_server_raises_AttributeError_witness:
  "reachable (init_state three_servers) \<and>
   change_server (Suc 0) refusing_env (init_state three_servers) =
     (Raise AttributeError, init_state three_servers)"
  using change_server_raises_AttributeError [OF r_init [of three_servers], where n = 0 and E = refusing_env]
    r_init [of three_servers]
  by simp

text \<open>
  C1. Three servers, \<^verbatim>\<open>max_servers=3\<close>, every connection refused. The claim has the
  third failure raise the exhaustion error. The code raises \<^verbatim>\<open>AttributeError\<close> at the
  first failure, from the first line of \<^verbatim>\<open>change_server\<close>, after one connection
  attempt and with no host recorded as failed.
\<close>

theorem three_refusals_raise_AttributeError:
  "fst (init 7 refusing_env three_servers) = Raise AttributeError \<and>
   conn_attempts (snd (init 7 refusing_env three_servers)) = [(Some ''a.example'', JStr ''50002'')] \<and>
   failed_hosts (snd (init 7 refusing_env three_servers)) = []"
  by code_simp

text \<open>
  C2. A connected client sends a batch of one request and no response arrives in time.
  The claim has the batcher fail over and resubmit. In the code the \<^verbatim>\<open>except
  asyncio.TimeoutError\<close> clause of \<^verbatim>\<open>get_coroutines\<close> surrounds only the creation of the
  coroutine; the timeout happens in \<^verbatim>\<open>run_until_complete\<close>, and
  \<^verbatim>\<open>rpc_multiple_send_and_wait\<close> lets it out: no connection is attempted, no host is
  recorded as failed, and the request was written once.
\<close>

theorem timeout_surfaces_without_failover:
  "fst (init 4 silent_after_handshake one_host) = Ret () \<and>
   fst (rpc_multiple_send_and_wait 3 silent_after_handshake connected [req_estimate_fee 6]) =
     Raise AsyncioTimeoutError \<and>
   conn_attempts (snd (rpc_multiple_send_and_wait 3 silent_after_handshake connected
      [req_estimate_fee 6])) = conn_attempts connected \<and>
   failed_hosts (snd (rpc_multiple_send_and_wait 3 silent_after_handshake connected
      [req_estimate_fee 6])) = [] \<and>
   sent (snd (rpc_multiple_send_and_wait 3 silent_after_handshake connected
      [req_estimate_fee 6])) = sent connected @ [(Some ''a.example'', 1, req_estimate_fee 6)]"
  by code_simp

text \<open>
  C4. \<^verbatim>\<open>estimate_fee_cached(6, 10)\<close> three times: at a time 0, one minute later, and
  eleven minutes later. The claim has the second call answered from the cache and the
  third one refreshed. The code tests \<^verbatim>\<open>expiry <= now\<close>: the second call, within the
  ten minutes, sends a second request and returns the new fee; the third, after the
  entry of the second call has expired, sends nothing and returns the stale fee.
\<close>

theorem fee_cache_serves_only_expired_entries:
  "fst (estimate_fee_cached 4 fee_replies connected 0 6 10) = Ret (JInt 20) \<and>
   fst (estimate_fee_cached 4 fee_replies after_first_estimate (timedelta_minutes 1) 6 10) =
     Ret (JInt 30) \<and>
   length (sent after_second_estimate) = length (sent after_first_estimate) + 1 \<and>
   fst (estimate_fee_cached 4 fee_replies after_second_estimate (timedelta_minutes 11) 6 10) =
     Ret (JInt 30) \<and>
   sent (snd (estimate_fee_cached 4 fee_replies after_second_estimate (timedelta_minutes 11) 6 10)) =
     sent after_second_estimate"
  by code_simp






text \<open>
  C7, as the claim states it: with no usable server for the transport mode, selection
  fails with a dedicated error. For a catalog without a \<^verbatim>\<open>'t'\<close> port and
  \<^verbatim>\<open>use_ssl=False\<close> the registry is empty, and what \<^verbatim>\<open>choose_random_server\<close> raises is
  the \<^verbatim>\<open>IndexError\<close> of \<^verbatim>\<open>random.choice\<close> on an empty list. The module declares no
  error of its own for this.
\<close>

theorem empty_registry_IndexError_counterexample:
  "servers (init_state no_tls_catalog) = [] \<and>
   fst (choose_random_server refusing_env (init_state no_tls_catalog)) = Raise IndexError"
  by code_simp

text \<open>
  C7, amended. When no entry of the registry advertises the port that the transport
  mode needs (an empty registry among them), \<^verbatim>\<open>choose_random_server\<close> ends by raising
  \<^verbatim>\<open>IndexError\<close>, with the registry empty: it returns no server, and it does return.
\<close>

theorem no_port_left_IndexError:
  assumes "list_all (\<lambda>hs. map_of (snd hs) (port_key (use_ssl c)) = None) (servers c)"
  shows "fst (choose_random_server E c) = Raise IndexError \<and>
         servers (snd (choose_random_server E c)) = []"
  using assms
proof (induction c rule: choose_induct[where E = E])
  case (Empty c)
  then show ?case by (simp add: choose_empty)
next
  case (Hit c server p)
  from Hit(2) have "(random_choice E c, server) \<in> set (servers c)"
    by (rule map_of_SomeD)
  with Hit(4) have "map_of server (port_key (use_ssl c)) = None"
    by (auto simp: list_all_iff)
  with Hit(3) show ?case by simp
next
  case (Miss c server)
  have "list_all (\<lambda>hs. map_of (snd hs) (port_key (use_ssl c)) = None)
          (del_server (random_choice E c) (servers c))"
    using Miss.prems by (rule list_all_del_server)
  then show ?case
    using Miss.IH Miss.hyps by (simp add: choose_miss)
qed

theorem no_port_left_IndexError_witness:
  "list_all (\<lambda>hs. map_of (snd hs) (port_key (use_ssl switched_to_plain)) = None)
     (servers switched_to_plain) \<and>
   length (servers switched_to_plain) = 3 \<and>
   fst (choose_random_server refusing_env switched_to_plain) = Raise IndexError \<and>
   servers (snd (choose_random_server refusing_env switched_to_plain)) = []"
proof -
  have h: "list_all (\<lambda>hs. map_of (snd hs) (port_key (use_ssl switched_to_plain)) = None)
     (servers switched_to_plain)"
    by code_simp
  have l: "length (servers switched_to_plain) = 3"
    by code_simp
  from no_port_left_IndexError [OF h, of refusing_env] h l show ?thesis by simp
qed



text \<open>
  C10. \<^verbatim>\<open>broadcast_transaction\<close> calls itself to compute the argument of
  \<^verbatim>\<open>run_command\<close>. Whatever depth of nested calls it is allowed, the call goes deeper,
  so it never returns a value; and no request has been sent.
\<close>

theorem broadcast_transaction_never_returns:
  "fst (broadcast_transaction n E c raw_tx) = Diverge \<and>
   sent (snd (broadcast_transaction n E c raw_tx)) = sent c \<and>
   send_count (snd (broadcast_transaction n E c raw_tx)) = send_count c"
  by (simp add: broadcast_transaction_diverges)

end
